theory Spec2Isabelle
  imports Main
begin

section \<open>JavaScript values\<close>

text \<open>
  The service \<^verbatim>\<open>BackEnd/src/services/ai.service.js\<close> exports one function,
  \<^verbatim>\<open>generateContent(prompt)\<close>. It checks the prompt, hands it to the SDK, and reduces
  whatever the SDK returns to one value by probing it with optional chaining,
  \<^verbatim>\<open>typeof\<close>, \<^verbatim>\<open>Array.isArray\<close>, \<^verbatim>\<open>JSON.stringify\<close> and \<^verbatim>\<open>String\<close>. The value it probes is
  untyped, so the model is a model of JavaScript values.

  A value is a primitive or a reference into a store of objects; the store makes shared
  and circular structures expressible.
  \<^item> A number is carried as the text \<^verbatim>\<open>Number::toString\<close> gives for it (\<^verbatim>\<open>42\<close>, \<^verbatim>\<open>-0.5\<close>,
    \<^verbatim>\<open>NaN\<close>, \<^verbatim>\<open>Infinity\<close>); the program never computes with a number, it only tests it for
    truth and prints it. The empty text is read as \<^verbatim>\<open>0\<close>.
  \<^item> A string is its list of code units; the model keeps the units below 256.
  \<^item> An object is the list of its own enumerable string-keyed data properties, in the
    order \<^verbatim>\<open>JSON.stringify\<close> enumerates them; it has the default prototype, no getters
    and no symbol keys. An array is the list of its elements (a hole reads as
    \<^verbatim>\<open>undefined\<close>, which no operation here tells apart).
  \<^item> A function is the text \<^verbatim>\<open>Function.prototype.toString\<close> gives for it and the outcome
    of calling it: it returns one value or it throws, whatever its arguments are, and
    it changes nothing. It has no properties of its own besides the built-in ones. The
    program never calls a value of its input; the runtime does, under the names
    \<^verbatim>\<open>toJSON\<close>, \<^verbatim>\<open>toString\<close> and \<^verbatim>\<open>valueOf\<close>.
  \<^item> An address outside the store stands for an empty object.
  Symbols and BigInts are left out, and so is the depth of the call stack: a structure
  is never too deep to walk.
\<close>

type_synonym addr = nat

datatype jsval = Undefined | Null | Bool bool | Num string | Str string | Ref addr

datatype outcome = Returns jsval | Throws

datatype jsobj = Obj "(string \<times> jsval) list" | Arr "jsval list" | Fun string outcome

type_synonym heap = "jsobj list"

text \<open>
  What a JavaScript evaluation can raise: \<^verbatim>\<open>new Error(message)\<close> of the program itself,
  a \<^verbatim>\<open>TypeError\<close> of the runtime, whatever a called function throws, and a rejection of
  the SDK's promise.
\<close>

datatype error = Error string | TypeError | Thrown | Rejected string

definition obj_at :: "heap \<Rightarrow> addr \<Rightarrow> jsobj" where
  "obj_at h a = (if a < length h then h ! a else Obj [])"

fun nullish :: "jsval \<Rightarrow> bool" where
  "nullish Undefined = True"
| "nullish Null = True"
| "nullish (Bool b) = False"
| "nullish (Num n) = False"
| "nullish (Str s) = False"
| "nullish (Ref a) = False"

definition num_text :: "string \<Rightarrow> string" where
  "num_text n = (if n = [] then ''0'' else n)"

text \<open>\<^verbatim>\<open>ToBoolean\<close>: what \<^verbatim>\<open>!x\<close>, \<^verbatim>\<open>x && y\<close> and \<^verbatim>\<open>filter(Boolean)\<close> test.\<close>

fun truthy :: "jsval \<Rightarrow> bool" where
  "truthy Undefined = False"
| "truthy Null = False"
| "truthy (Bool b) = b"
| "truthy (Num n) = (num_text n \<noteq> ''0'' \<and> num_text n \<noteq> ''NaN'')"
| "truthy (Str s) = (s \<noteq> [])"
| "truthy (Ref a) = True"

fun typeof :: "heap \<Rightarrow> jsval \<Rightarrow> string" where
  "typeof h Undefined = ''undefined''"
| "typeof h Null = ''object''"
| "typeof h (Bool b) = ''boolean''"
| "typeof h (Num n) = ''number''"
| "typeof h (Str s) = ''string''"
| "typeof h (Ref a) = (case obj_at h a of Fun src out \<Rightarrow> ''function'' | Obj fs \<Rightarrow> ''object'' | Arr vs \<Rightarrow> ''object'')"

definition callable :: "heap \<Rightarrow> jsval \<Rightarrow> bool" where
  "callable h v = (typeof h v = ''function'')"

text \<open>What a call of \<open>m\<close> does; \<open>None\<close> when \<open>m\<close> is not callable.\<close>

definition call :: "heap \<Rightarrow> jsval \<Rightarrow> outcome option" where
  "call h m = (case m of Ref a \<Rightarrow> (case obj_at h a of Fun src out \<Rightarrow> Some out | Obj fs \<Rightarrow> None | Arr vs \<Rightarrow> None)
               | _ \<Rightarrow> None)"

fun is_primitive :: "jsval \<Rightarrow> bool" where
  "is_primitive (Ref a) = False"
| "is_primitive v = True"

definition isArray :: "heap \<Rightarrow> jsval \<Rightarrow> bool" where
  "isArray h v = (case v of Ref a \<Rightarrow> (case obj_at h a of Arr vs \<Rightarrow> True | Obj fs \<Rightarrow> False | Fun src out \<Rightarrow> False)
                  | _ \<Rightarrow> False)"

definition elements :: "heap \<Rightarrow> jsval \<Rightarrow> jsval list" where
  "elements h v = (case v of Ref a \<Rightarrow> (case obj_at h a of Arr vs \<Rightarrow> vs | Obj fs \<Rightarrow> [] | Fun src out \<Rightarrow> [])
                   | _ \<Rightarrow> [])"

subsection \<open>Reading a property\<close>

text \<open>
  The program reads six names: \<^verbatim>\<open>response\<close>, \<^verbatim>\<open>candidates\<close>, \<^verbatim>\<open>0\<close>, \<^verbatim>\<open>content\<close>, \<^verbatim>\<open>parts\<close> and
  \<^verbatim>\<open>text\<close>. No built-in prototype defines one of them, so a read finds an own property or
  \<^verbatim>\<open>undefined\<close>. An array and a string answer only the index \<^verbatim>\<open>0\<close> among them: the first
  element, the first code unit.
\<close>

fun own_prop :: "jsobj \<Rightarrow> string \<Rightarrow> jsval" where
  "own_prop (Obj fs) k = (case map_of fs k of None \<Rightarrow> Undefined | Some v \<Rightarrow> v)"
| "own_prop (Arr vs) k = (if k = ''0'' then (case vs of [] \<Rightarrow> Undefined | v # _ \<Rightarrow> v) else Undefined)"
| "own_prop (Fun src out) k = Undefined"

fun prop_of :: "heap \<Rightarrow> jsval \<Rightarrow> string \<Rightarrow> jsval" where
  "prop_of h (Ref a) k = own_prop (obj_at h a) k"
| "prop_of h (Str s) k = (if k = ''0'' then (case s of [] \<Rightarrow> Undefined | c # _ \<Rightarrow> Str [c]) else Undefined)"
| "prop_of h v k = Undefined"

text \<open>\<^verbatim>\<open>v.k\<close> raises a TypeError on \<^verbatim>\<open>null\<close> and \<^verbatim>\<open>undefined\<close>; \<^verbatim>\<open>v?.k\<close> is \<^verbatim>\<open>undefined\<close> there.\<close>

definition dot :: "heap \<Rightarrow> jsval \<Rightarrow> string \<Rightarrow> error + jsval" where
  "dot h v k = (if nullish v then Inl TypeError else Inr (prop_of h v k))"

definition opt_dot :: "heap \<Rightarrow> jsval \<Rightarrow> string \<Rightarrow> jsval" where
  "opt_dot h v k = (if nullish v then Undefined else prop_of h v k)"

text \<open>\<^verbatim>\<open>a ?? b\<close> with \<open>b\<close> already evaluated.\<close>

definition coalesce :: "jsval \<Rightarrow> jsval \<Rightarrow> jsval" where
  "coalesce a b = (if nullish a then b else a)"

subsection \<open>Sequencing evaluations that can raise\<close>

fun collect :: "(error + 'a) list \<Rightarrow> error + 'a list" where
  "collect [] = Inr []"
| "collect (Inl e # rs) = Inl e"
| "collect (Inr x # rs) = (case collect rs of Inl e \<Rightarrow> Inl e | Inr xs \<Rightarrow> Inr (x # xs))"

fun commas :: "string list \<Rightarrow> string" where
  "commas [] = []"
| "commas [s] = s"
| "commas (s # t # ts) = s @ '','' @ commas (t # ts)"

subsection \<open>\<^verbatim>\<open>JSON.stringify\<close>\<close>

text \<open>
  \<^verbatim>\<open>QuoteJSONString\<close>: the double quote and the backslash get a backslash, the control
  characters their short escape or \<^verbatim>\<open>\u00XX\<close> in lower-case hexadecimal.
\<close>

definition hex_digit :: "nat \<Rightarrow> char" where
  "hex_digit n = (''0123456789abcdef'') ! (n mod 16)"

definition json_escape :: "char \<Rightarrow> string" where
  "json_escape c =
     (if c = CHR 0x08 then [CHR 0x5C, CHR ''b'']
      else if c = CHR 0x09 then [CHR 0x5C, CHR ''t'']
      else if c = CHR 0x0A then [CHR 0x5C, CHR ''n'']
      else if c = CHR 0x0C then [CHR 0x5C, CHR ''f'']
      else if c = CHR 0x0D then [CHR 0x5C, CHR ''r'']
      else if c = CHR 0x22 then [CHR 0x5C, CHR 0x22]
      else if c = CHR 0x5C then [CHR 0x5C, CHR 0x5C]
      else if (of_char c :: nat) < 32
        then [CHR 0x5C, CHR ''u'', CHR ''0'', CHR ''0'',
              hex_digit (of_char c div 16), hex_digit (of_char c)]
      else [c])"

definition quote :: "string \<Rightarrow> string" where
  "quote s = CHR 0x22 # concat (map json_escape s) @ [CHR 0x22]"

text \<open>
  A property whose value serialises to \<^verbatim>\<open>undefined\<close> is left out of an object; in an array
  it is written \<^verbatim>\<open>null\<close>.
\<close>

fun members :: "(string \<times> string option) list \<Rightarrow> string list" where
  "members [] = []"
| "members ((k, None) # ms) = members ms"
| "members ((k, Some s) # ms) = (quote k @ '':'' @ s) # members ms"

text \<open>
  The first step of \<^verbatim>\<open>SerializeJSONProperty\<close>: an object whose \<^verbatim>\<open>toJSON\<close> is a function is
  replaced by what the call returns. Among the values of the model only an object can
  have one.
\<close>

definition to_json :: "heap \<Rightarrow> jsval \<Rightarrow> error + jsval" where
  "to_json h v =
     (case v of
        Ref a \<Rightarrow>
          (case obj_at h a of
             Obj fs \<Rightarrow>
               (case map_of fs ''toJSON'' of
                  None \<Rightarrow> Inr v
                | Some m \<Rightarrow>
                    (case call h m of
                       None \<Rightarrow> Inr v
                     | Some Throws \<Rightarrow> Inl Thrown
                     | Some (Returns v') \<Rightarrow> Inr v'))
           | Arr vs \<Rightarrow> Inr v
           | Fun src out \<Rightarrow> Inr v)
      | _ \<Rightarrow> Inr v)"

text \<open>
  The rest of \<^verbatim>\<open>SerializeJSONProperty\<close>, with no replacer and no indentation, on the value
  that \<^const>\<open>to_json\<close> left. \<open>st\<close> is the stack of the objects and arrays being
  serialised: meeting one of them again is the TypeError ``Converting circular structure
  to JSON''. Every element and every property value goes through \<^const>\<open>to_json\<close> first.
  The result \<open>None\<close> is \<^verbatim>\<open>undefined\<close>.
\<close>

function ser :: "heap \<Rightarrow> addr list \<Rightarrow> jsval \<Rightarrow> error + string option" where
  "ser h st Undefined = Inr None"
| "ser h st Null = Inr (Some ''null'')"
| "ser h st (Bool b) = Inr (Some (if b then ''true'' else ''false''))"
| "ser h st (Num n) =
     Inr (Some (if num_text n = ''NaN'' \<or> num_text n = ''Infinity'' \<or> num_text n = ''-Infinity''
                then ''null'' else num_text n))"
| "ser h st (Str s) = Inr (Some (quote s))"
| "ser h st (Ref a) =
     (case obj_at h a of
        Fun src out \<Rightarrow> Inr None
      | Arr vs \<Rightarrow>
          if a \<in> set st then Inl TypeError
          else (case collect (map (\<lambda>v. case to_json h v of
                                          Inl e \<Rightarrow> Inl e
                                        | Inr v' \<Rightarrow> ser h (a # st) v') vs) of
                  Inl e \<Rightarrow> Inl e
                | Inr rs \<Rightarrow>
                    Inr (Some (''['' @ commas (map (\<lambda>r. case r of None \<Rightarrow> ''null'' | Some s \<Rightarrow> s) rs) @ '']'')))
      | Obj fs \<Rightarrow>
          if a \<in> set st then Inl TypeError
          else (case collect (map (\<lambda>kv. case to_json h (snd kv) of
                                           Inl e \<Rightarrow> Inl e
                                         | Inr v' \<Rightarrow> ser h (a # st) v') fs) of
                  Inl e \<Rightarrow> Inl e
                | Inr rs \<Rightarrow> Inr (Some (''{'' @ commas (members (zip (map fst fs) rs)) @ ''}''))))"
  by pat_completeness (simp_all only: jsval.inject jsval.distinct prod.inject simp_thms)

lemma obj_at_nonempty_in_store:
  "obj_at h a = Arr vs \<Longrightarrow> a < length h"
  "obj_at h a = Obj fs \<Longrightarrow> fs \<noteq> [] \<Longrightarrow> a < length h"
  by (auto simp: obj_at_def split: if_splits)

lemma fresh_address_decreases:
  fixes a n :: nat
  assumes "a < n" and "a \<notin> set st"
  shows "card ({..<n} - set (a # st)) < card ({..<n} - set st)"
proof -
  have "finite ({..<n} - set st)"
    by simp
  moreover have "{..<n} - set (a # st) \<subset> {..<n} - set st"
    using assms by auto
  ultimately show ?thesis
    by (rule psubset_card_mono)
qed

termination ser
proof (relation "measure (\<lambda>(h, st, v). card ({..<length h} - set st))")
  show "wf (measure (\<lambda>(h, st, v). card ({..<length h} - set st)))"
    by simp
next
  fix h st a vs v v'
  assume "obj_at h a = Arr vs" and "a \<notin> set st"
  then show "((h, a # st, v'), (h, st, Ref a)) \<in> measure (\<lambda>(h, st, v). card ({..<length h} - set st))"
    using fresh_address_decreases [of a "length h" st] obj_at_nonempty_in_store(1) [of h a vs]
    by simp
next
  fix h st a fs kv v'
  assume "obj_at h a = Obj fs" and "a \<notin> set st" and "kv \<in> set fs"
  then have "a < length h"
    by (cases fs) (auto dest: obj_at_nonempty_in_store(2))
  then show "((h, a # st, v'), (h, st, Ref a)) \<in> measure (\<lambda>(h, st, v). card ({..<length h} - set st))"
    using fresh_address_decreases [of a "length h" st] \<open>a \<notin> set st\<close>
    by simp
qed

definition JSON_stringify :: "heap \<Rightarrow> jsval \<Rightarrow> error + jsval" where
  "JSON_stringify h v =
     (case to_json h v of
        Inl e \<Rightarrow> Inl e
      | Inr v' \<Rightarrow>
          (case ser h [] v' of
             Inl e \<Rightarrow> Inl e
           | Inr None \<Rightarrow> Inr Undefined
           | Inr (Some s) \<Rightarrow> Inr (Str s)))"

subsection \<open>\<^verbatim>\<open>String\<close>\<close>

text \<open>
  \<^verbatim>\<open>OrdinaryToPrimitive\<close> with the hint string, on a plain object. It asks \<^verbatim>\<open>toString\<close>,
  then \<^verbatim>\<open>valueOf\<close>: a method that is a function is called, and what it returns is taken
  if it is a primitive; a property that is no function is passed over. The built-in
  \<^verbatim>\<open>toString\<close> gives \<^verbatim>\<open>[object Object]\<close>, the built-in \<^verbatim>\<open>valueOf\<close> the object itself, which is
  no primitive; when neither method gives a primitive it is a TypeError.
\<close>

definition own_valueOf :: "heap \<Rightarrow> (string \<times> jsval) list \<Rightarrow> error + jsval" where
  "own_valueOf h fs =
     (case map_of fs ''valueOf'' of
        None \<Rightarrow> Inl TypeError
      | Some m \<Rightarrow>
          (case call h m of
             None \<Rightarrow> Inl TypeError
           | Some Throws \<Rightarrow> Inl Thrown
           | Some (Returns v) \<Rightarrow> if is_primitive v then Inr v else Inl TypeError))"

definition object_to_primitive :: "heap \<Rightarrow> (string \<times> jsval) list \<Rightarrow> error + jsval" where
  "object_to_primitive h fs =
     (case map_of fs ''toString'' of
        None \<Rightarrow> Inr (Str ''[object Object]'')
      | Some m \<Rightarrow>
          (case call h m of
             None \<Rightarrow> own_valueOf h fs
           | Some Throws \<Rightarrow> Inl Thrown
           | Some (Returns v) \<Rightarrow> if is_primitive v then Inr v else own_valueOf h fs))"

text \<open>\<^verbatim>\<open>ToString\<close> of a primitive.\<close>

fun prim_text :: "jsval \<Rightarrow> string" where
  "prim_text Undefined = ''undefined''"
| "prim_text Null = ''null''"
| "prim_text (Bool b) = (if b then ''true'' else ''false'')"
| "prim_text (Num n) = num_text n"
| "prim_text (Str s) = s"
| "prim_text (Ref a) = []"

text \<open>
  \<^verbatim>\<open>ToString\<close>. An array is joined with commas, \<^verbatim>\<open>null\<close> and \<^verbatim>\<open>undefined\<close> elements as the
  empty string. \<open>st\<close> is the stack of the arrays being joined: Node's
  \<^verbatim>\<open>Array.prototype.join\<close> gives the empty string for an array it is already joining.
\<close>

function to_string :: "heap \<Rightarrow> addr list \<Rightarrow> jsval \<Rightarrow> error + string" where
  "to_string h st Undefined = Inr (prim_text Undefined)"
| "to_string h st Null = Inr (prim_text Null)"
| "to_string h st (Bool b) = Inr (prim_text (Bool b))"
| "to_string h st (Num n) = Inr (prim_text (Num n))"
| "to_string h st (Str s) = Inr (prim_text (Str s))"
| "to_string h st (Ref a) =
     (case obj_at h a of
        Fun src out \<Rightarrow> Inr src
      | Obj fs \<Rightarrow>
          (case object_to_primitive h fs of
             Inl e \<Rightarrow> Inl e
           | Inr p \<Rightarrow> Inr (prim_text p))
      | Arr vs \<Rightarrow>
          if a \<in> set st then Inr []
          else (case collect (map (\<lambda>v. if nullish v then Inr [] else to_string h (a # st) v) vs) of
                  Inl e \<Rightarrow> Inl e
                | Inr ss \<Rightarrow> Inr (commas ss)))"
  by pat_completeness (simp_all only: jsval.inject jsval.distinct prod.inject simp_thms)

termination to_string
proof (relation "measure (\<lambda>(h, st, v). card ({..<length h} - set st))")
  show "wf (measure (\<lambda>(h, st, v). card ({..<length h} - set st)))"
    by simp
next
  fix h st a vs v
  assume "obj_at h a = Arr vs" and "a \<notin> set st"
  then show "((h, a # st, v), (h, st, Ref a)) \<in> measure (\<lambda>(h, st, v). card ({..<length h} - set st))"
    using fresh_address_decreases [of a "length h" st] obj_at_nonempty_in_store(1) [of h a vs]
    by simp
qed

definition String_of :: "heap \<Rightarrow> jsval \<Rightarrow> error + jsval" where
  "String_of h v = (case to_string h [] v of Inl e \<Rightarrow> Inl e | Inr s \<Rightarrow> Inr (Str s))"

section \<open>The service\<close>

subsection \<open>The check of the prompt\<close>

text \<open>
  \<^verbatim>\<open>if (!prompt || typeof prompt !== 'string') throw new Error(...)\<close>, the first statement of
  \<^verbatim>\<open>generateContent\<close>.
\<close>

definition missing_input :: error where
  "missing_input = Error ''generateContent requires a non-empty string prompt''"

definition validate :: "heap \<Rightarrow> jsval \<Rightarrow> error + jsval" where
  "validate h prompt =
     (if \<not> truthy prompt \<or> typeof h prompt \<noteq> ''string'' then Inl missing_input else Inr prompt)"

subsection \<open>The reduction of the SDK's result\<close>

text \<open>\<^verbatim>\<open>const candidate = result?.response?.candidates?.[0]; const content = candidate?.content;\<close>\<close>

definition candidate_of :: "heap \<Rightarrow> jsval \<Rightarrow> jsval" where
  "candidate_of h result = opt_dot h (opt_dot h (opt_dot h result ''response'') ''candidates'') ''0''"

definition content_of :: "heap \<Rightarrow> jsval \<Rightarrow> jsval" where
  "content_of h result = opt_dot h (candidate_of h result) ''content''"

text \<open>The arrow function \<^verbatim>\<open>(p) => (p && typeof p.text === 'string' ? p.text : '')\<close>.\<close>

definition part_text :: "heap \<Rightarrow> jsval \<Rightarrow> error + jsval" where
  "part_text h p =
     (if truthy p
      then (case dot h p ''text'' of
              Inl e \<Rightarrow> Inl e
            | Inr t \<Rightarrow> Inr (if typeof h t = ''string'' then t else Str []))
      else Inr (Str []))"

text \<open>\<^verbatim>\<open>texts.join('')\<close> on an array of strings.\<close>

fun chars :: "jsval \<Rightarrow> string" where
  "chars (Str s) = s"
| "chars v = []"

definition join_empty :: "jsval list \<Rightarrow> string" where
  "join_empty texts = concat (map chars texts)"

text \<open>
  The value of \<^verbatim>\<open>extracted\<close> after the first \<^verbatim>\<open>if\<close>:
  \<^verbatim>\<open>
  let extracted = null;
  if (content?.parts && Array.isArray(content.parts)) {
      const texts = content.parts.map(...).filter(Boolean);
      if (texts.length > 0) extracted = texts.join('');
  }
  \<close>
\<close>

definition primary :: "heap \<Rightarrow> jsval \<Rightarrow> error + jsval" where
  "primary h content =
     (if truthy (opt_dot h content ''parts'')
      then (case dot h content ''parts'' of
              Inl e \<Rightarrow> Inl e
            | Inr parts \<Rightarrow>
                if isArray h parts
                then (case collect (map (part_text h) (elements h parts)) of
                        Inl e \<Rightarrow> Inl e
                      | Inr mapped \<Rightarrow>
                          (let texts = filter truthy mapped
                           in Inr (if length texts > 0 then Str (join_empty texts) else Null)))
                else Inr Null)
      else Inr Null)"

text \<open>
  \<^verbatim>\<open>if (!extracted && typeof result?.response === 'string') extracted = result.response;\<close>
\<close>

definition secondary :: "heap \<Rightarrow> jsval \<Rightarrow> jsval \<Rightarrow> error + jsval" where
  "secondary h result extracted =
     (if \<not> truthy extracted \<and> typeof h (opt_dot h result ''response'') = ''string''
      then dot h result ''response''
      else Inr extracted)"

text \<open>
  The argument \<^verbatim>\<open>candidate ?? result.response ?? result\<close>: the right operand of \<^verbatim>\<open>??\<close> is
  evaluated only when the left one is \<^verbatim>\<open>null\<close> or \<^verbatim>\<open>undefined\<close>.
\<close>

definition fragment :: "heap \<Rightarrow> jsval \<Rightarrow> jsval \<Rightarrow> error + jsval" where
  "fragment h candidate result =
     (if nullish candidate
      then (case dot h result ''response'' of
              Inl e \<Rightarrow> Inl e
            | Inr r \<Rightarrow> Inr (coalesce r result))
      else Inr candidate)"

text \<open>
  \<^verbatim>\<open>
  if (!extracted) {
      try { extracted = JSON.stringify(candidate ?? result.response ?? result); }
      catch (e) { extracted = String(result); }
  }
  \<close>
\<close>

definition try_block :: "heap \<Rightarrow> jsval \<Rightarrow> jsval \<Rightarrow> error + jsval" where
  "try_block h candidate result =
     (case fragment h candidate result of
        Inl e \<Rightarrow> Inl e
      | Inr f \<Rightarrow> JSON_stringify h f)"

definition fallback :: "heap \<Rightarrow> jsval \<Rightarrow> jsval \<Rightarrow> jsval \<Rightarrow> error + jsval" where
  "fallback h candidate result extracted =
     (if \<not> truthy extracted
      then (case try_block h candidate result of
              Inr v \<Rightarrow> Inr v
            | Inl e \<Rightarrow> String_of h result)
      else Inr extracted)"

text \<open>
  The statements of \<^verbatim>\<open>generateContent\<close> from \<^verbatim>\<open>const candidate\<close> to the end of the last
  \<^verbatim>\<open>if\<close>, as a function of the SDK's result: the value of \<^verbatim>\<open>extracted\<close> that is logged and
  returned.
\<close>

definition normalize_response :: "heap \<Rightarrow> jsval \<Rightarrow> error + jsval" where
  "normalize_response h result =
     (let candidate = candidate_of h result;
          content = opt_dot h candidate ''content''
      in case primary h content of
           Inl e \<Rightarrow> Inl e
         | Inr extracted \<Rightarrow>
             (case secondary h result extracted of
                Inl e \<Rightarrow> Inl e
              | Inr extracted' \<Rightarrow> fallback h candidate result extracted'))"

subsection \<open>The exported function\<close>

text \<open>
  The SDK's \<^verbatim>\<open>model.generateContent\<close> is a parameter: it rejects, or resolves to a result
  in a store. What the function does to the world is recorded: the arguments it called
  the SDK with, and the values it wrote with \<^verbatim>\<open>console.log\<close>.
\<close>

record effects =
  calls :: "jsval list"
  console :: "jsval list"

type_synonym sdk = "jsval \<Rightarrow> error + heap \<times> jsval"

definition generateContent :: "sdk \<Rightarrow> heap \<Rightarrow> jsval \<Rightarrow> (error + jsval) \<times> effects" where
  "generateContent model h prompt =
     (case validate h prompt of
        Inl e \<Rightarrow> (Inl e, \<lparr>calls = [], console = []\<rparr>)
      | Inr p \<Rightarrow>
          (case model p of
             Inl e \<Rightarrow> (Inl e, \<lparr>calls = [p], console = []\<rparr>)
           | Inr (h', result) \<Rightarrow>
               (case normalize_response h' result of
                  Inl e \<Rightarrow> (Inl e, \<lparr>calls = [p], console = []\<rparr>)
                | Inr extracted \<Rightarrow> (Inr extracted, \<lparr>calls = [p], console = [extracted]\<rparr>))))"

text \<open>The \<^verbatim>\<open>try\<close> statement alone: what \<^verbatim>\<open>extracted\<close> becomes when the last \<^verbatim>\<open>if\<close> is entered.\<close>

definition last_resort :: "heap \<Rightarrow> jsval \<Rightarrow> error + jsval" where
  "last_resort h result =
     (case try_block h (candidate_of h result) result of
        Inr v \<Rightarrow> Inr v
      | Inl e \<Rightarrow> String_of h result)"

section \<open>The specification's words\<close>

text \<open>
  The specification speaks of \<^verbatim>\<open>validate\<close> and \<^verbatim>\<open>normalize\<close>; in the source both are
  parts of \<^verbatim>\<open>generateContent\<close>: \<^const>\<open>validate\<close> is its first statement and
  \<^const>\<open>normalize_response\<close> its statements after the call of the SDK. The definitions of
  this section follow the specification's sentences, not the code.
\<close>

fun is_string :: "jsval \<Rightarrow> bool" where
  "is_string (Str s) = True"
| "is_string v = False"

fun nonempty_string :: "jsval \<Rightarrow> bool" where
  "nonempty_string (Str s) = (s \<noteq> [])"
| "nonempty_string v = False"

text \<open>``A part whose text field is a string'': the string, if the part has one.\<close>

definition text_field :: "heap \<Rightarrow> jsval \<Rightarrow> string option" where
  "text_field h p = (case opt_dot h p ''text'' of Str s \<Rightarrow> Some s | _ \<Rightarrow> None)"

text \<open>
  ``The concatenation, in original array order and with no separator, of the text fields
  of exactly those parts whose text is a string.''
\<close>

definition string_texts :: "heap \<Rightarrow> jsval list \<Rightarrow> string" where
  "string_texts h ps = concat (List.map_filter (text_field h) ps)"

text \<open>
  ``Filter to parts whose text field is a non-empty string, and concatenate them in
  original order with no separator.''
\<close>

definition nonempty_texts :: "heap \<Rightarrow> jsval list \<Rightarrow> string" where
  "nonempty_texts h ps = concat (filter (\<lambda>s. s \<noteq> []) (List.map_filter (text_field h) ps))"

text \<open>
  The ordered sequence of parts that the first candidate's content holds; no parts when
  there is no such array.
\<close>

definition parts_of :: "heap \<Rightarrow> jsval \<Rightarrow> jsval list" where
  "parts_of h result = elements h (opt_dot h (content_of h result) ''parts'')"

definition primary_texts :: "heap \<Rightarrow> jsval \<Rightarrow> string" where
  "primary_texts h result = string_texts h (parts_of h result)"

text \<open>
  ``The most specific available fragment: the first candidate object if present, else the
  raw response field, else the whole result.''
\<close>

definition most_specific :: "heap \<Rightarrow> jsval \<Rightarrow> jsval" where
  "most_specific h result =
     (if \<not> nullish (candidate_of h result) then candidate_of h result
      else if \<not> nullish (opt_dot h result ''response'') then opt_dot h result ''response''
      else result)"

text \<open>
  ``The primary and secondary paths both fail'': the parts give no text, and the response
  field is not a string with text in it.
\<close>

definition paths_fail :: "heap \<Rightarrow> jsval \<Rightarrow> bool" where
  "paths_fail h result =
     (primary_texts h result = [] \<and> \<not> nonempty_string (opt_dot h result ''response''))"

text \<open>
  ``The fallback serializes the most specific available fragment to a machine-readable
  text form, and if that serialization itself raises, normalize instead returns a
  best-effort human-readable string conversion of the original result.''
\<close>

definition fallback_as_worded :: "heap \<Rightarrow> jsval \<Rightarrow> error + jsval" where
  "fallback_as_worded h result =
     (case JSON_stringify h (most_specific h result) of
        Inr v \<Rightarrow> Inr v
      | Inl e \<Rightarrow> String_of h result)"

text \<open>``The code/prompt field is absent, empty, or not a string.''\<close>

definition absent_empty_or_not_string :: "jsval \<Rightarrow> bool" where
  "absent_empty_or_not_string prompt =
     (prompt = Undefined \<or> prompt = Str [] \<or> \<not> is_string prompt)"

text \<open>
  White space as \<^verbatim>\<open>String.prototype.trim\<close> knows it, among the code units below 256: tab,
  line feed, vertical tab, form feed, carriage return, space and no-break space.
\<close>

definition is_space :: "char \<Rightarrow> bool" where
  "is_space c = (c \<in> {CHR 0x09, CHR 0x0A, CHR 0x0B, CHR 0x0C, CHR 0x0D, CHR 0x20, CHR 0xA0})"

section \<open>Example inputs\<close>

text \<open>
  \<^verbatim>\<open>{ response: { candidates: [{ content: { parts: [{text:"Looks "}, {other:1}, {text:"good."}],
  role: "model" }, finishReason: "STOP" }], text: () => ... } }\<close>, the shape the SDK resolves
  to, with the parts of the specification's example.
\<close>

definition review_response :: heap where
  "review_response =
     [Obj [(''response'', Ref 1)],
      Obj [(''candidates'', Ref 2), (''text'', Ref 9)],
      Arr [Ref 3],
      Obj [(''content'', Ref 4), (''finishReason'', Str ''STOP'')],
      Obj [(''parts'', Ref 5), (''role'', Str ''model'')],
      Arr [Ref 6, Ref 7, Ref 8],
      Obj [(''text'', Str ''Looks '')],
      Obj [(''other'', Num ''1'')],
      Obj [(''text'', Str ''good.'')],
      Fun ''() => { ... }'' (Returns (Str ''Looks good.''))]"

text \<open>\<^verbatim>\<open>{ response: { candidates: [{ content: { parts: [{ text: "" }] } }] } }\<close>\<close>

definition empty_text_response :: heap where
  "empty_text_response =
     [Obj [(''response'', Ref 1)],
      Obj [(''candidates'', Ref 2)],
      Arr [Ref 3],
      Obj [(''content'', Ref 4)],
      Obj [(''parts'', Ref 5)],
      Arr [Ref 6],
      Obj [(''text'', Str [])]]"

text \<open>
  Parts \<^verbatim>\<open>[null, undefined, 5, "text", true, { text: 1 }, {}, ["x"], { text: "ok" }]\<close>.
\<close>

definition malformed_parts_response :: heap where
  "malformed_parts_response =
     [Obj [(''response'', Ref 1)],
      Obj [(''candidates'', Ref 2)],
      Arr [Ref 3],
      Obj [(''content'', Ref 4)],
      Obj [(''parts'', Ref 5)],
      Arr [Null, Undefined, Num ''5'', Str ''text'', Bool True, Ref 6, Ref 7, Ref 8, Ref 9],
      Obj [(''text'', Num ''1'')],
      Obj [],
      Arr [Str ''x''],
      Obj [(''text'', Str ''ok'')]]"

text \<open>\<^verbatim>\<open>{ response: { candidates: [{ content: { parts: "text" } }] } }\<close>\<close>

definition parts_not_array_response :: heap where
  "parts_not_array_response =
     [Obj [(''response'', Ref 1)],
      Obj [(''candidates'', Ref 2)],
      Arr [Ref 3],
      Obj [(''content'', Ref 4)],
      Obj [(''parts'', Str ''text'')]]"

text \<open>\<^verbatim>\<open>{ response: "plain text" }\<close> and \<^verbatim>\<open>{ response: "" }\<close>\<close>

definition plain_text_response :: heap where
  "plain_text_response = [Obj [(''response'', Str ''plain text'')]]"

definition empty_string_response :: heap where
  "empty_string_response = [Obj [(''response'', Str [])]]"

text \<open>
  \<^verbatim>\<open>{ response: { candidates: [{ finishReason: "SAFETY", index: 0 }] } }\<close>: a candidate
  without content.
\<close>

definition unfinished_response :: heap where
  "unfinished_response =
     [Obj [(''response'', Ref 1)],
      Obj [(''candidates'', Ref 2)],
      Arr [Ref 3],
      Obj [(''finishReason'', Str ''SAFETY''), (''index'', Num ''0'')]]"

text \<open>
  \<^verbatim>\<open>{ response: { promptFeedback: { blockReason: "SAFETY" }, text: () => ... } }\<close>: no
  candidates, and a \<^verbatim>\<open>text\<close> method that throws.
\<close>

definition blocked_response :: heap where
  "blocked_response =
     [Obj [(''response'', Ref 1)],
      Obj [(''promptFeedback'', Ref 2), (''text'', Ref 3)],
      Obj [(''blockReason'', Str ''SAFETY'')],
      Fun ''() => { ... }'' Throws]"

text \<open>
  \<^verbatim>\<open>const o = {}; o.self = o\<close>, \<^verbatim>\<open>const a = []; a[0] = a\<close> and
  \<^verbatim>\<open>const b = [1]; b[1] = b\<close>
\<close>

definition circular_object :: heap where
  "circular_object = [Obj [(''self'', Ref 0)]]"

definition circular_array :: heap where
  "circular_array = [Arr [Ref 0]]"

definition circular_array_with_number :: heap where
  "circular_array_with_number = [Arr [Num ''1'', Ref 0]]"

text \<open>
  \<^verbatim>\<open>const o = { toString: "x" }; o.self = o\<close> and
  \<^verbatim>\<open>const o = { toString() { return String() } }; o.self = o\<close>
\<close>

definition circular_toString_object :: heap where
  "circular_toString_object = [Obj [(''toString'', Str ''x''), (''self'', Ref 0)]]"

definition circular_empty_toString_object :: heap where
  "circular_empty_toString_object =
     [Obj [(''toString'', Ref 1), (''self'', Ref 0)],
      Fun ''toString() { return String() }'' (Returns (Str []))]"

text \<open>
  \<^verbatim>\<open>{ response: { candidates: [function () {}] } }\<close> and
  \<^verbatim>\<open>{ response: { candidates: [{ toJSON() { return undefined } }] } }\<close>
\<close>

definition function_candidate :: heap where
  "function_candidate =
     [Obj [(''response'', Ref 1)],
      Obj [(''candidates'', Ref 2)],
      Arr [Ref 3],
      Fun ''function () {}'' (Returns Undefined)]"

definition toJSON_candidate :: heap where
  "toJSON_candidate =
     [Obj [(''response'', Ref 1)],
      Obj [(''candidates'', Ref 2)],
      Arr [Ref 3],
      Obj [(''toJSON'', Ref 4)],
      Fun ''toJSON() { return undefined }'' (Returns Undefined)]"

text \<open>
  An SDK whose promise rejects, one that resolves to the review above, and one that
  resolves to \<^verbatim>\<open>{ response: prompt }\<close>, its argument as the response.
\<close>

definition unavailable_sdk :: sdk where
  "unavailable_sdk prompt = Inl (Rejected ''fetch failed'')"

definition review_sdk :: sdk where
  "review_sdk prompt = Inr (review_response, Ref 0)"

definition echo_sdk :: sdk where
  "echo_sdk prompt = Inr ([Obj [(''response'', prompt)]], Ref 0)"

section \<open>Properties of the model\<close>

lemmas model_defs =
  normalize_response_def candidate_of_def content_of_def primary_def secondary_def fallback_def
  try_block_def fragment_def part_text_def join_empty_def JSON_stringify_def String_of_def
  object_to_primitive_def own_valueOf_def to_json_def call_def callable_def isArray_def elements_def
  dot_def opt_dot_def coalesce_def obj_at_def quote_def json_escape_def num_text_def
  last_resort_def

lemmas text_defs =
  text_field_def string_texts_def parts_of_def primary_texts_def

lemma typeof_string_iff: "typeof h v = ''string'' \<longleftrightarrow> is_string v"
  by (cases v) (auto split: jsobj.splits)

lemma part_text_eq:
  "part_text h p = Inr (Str (case text_field h p of None \<Rightarrow> [] | Some s \<Rightarrow> s))"
proof (cases "truthy p")
  case True
  then have "\<not> nullish p" by (cases p) auto
  then show ?thesis
    using True
    by (cases "prop_of h p ''text''")
       (auto simp: part_text_def dot_def opt_dot_def text_field_def split: jsobj.splits)
next
  case False
  then have "opt_dot h p ''text'' = Undefined"
    by (cases p) (auto simp: opt_dot_def)
  then show ?thesis
    using False by (simp add: part_text_def text_field_def)
qed

lemma collect_map_Inr:
  "(\<And>x. x \<in> set xs \<Longrightarrow> f x = Inr (g x)) \<Longrightarrow> collect (map f xs) = Inr (map g xs)"
  by (induction xs) auto

lemma join_filter_truthy:
  "join_empty (filter truthy (map (\<lambda>p. Str (case text_field h p of None \<Rightarrow> [] | Some s \<Rightarrow> s)) ps))
     = string_texts h ps"
  by (induction ps) (auto simp: join_empty_def string_texts_def split: option.splits)

lemma filter_truthy_empty_iff:
  "filter truthy (map (\<lambda>p. Str (case text_field h p of None \<Rightarrow> [] | Some s \<Rightarrow> s)) ps) = []
     \<longleftrightarrow> string_texts h ps = []"
  by (induction ps) (auto simp: string_texts_def split: option.splits)

text \<open>The first \<^verbatim>\<open>if\<close> computes the specification's concatenation and never raises.\<close>

lemma primary_eq:
  "primary h content =
     Inr (let t = string_texts h (elements h (opt_dot h content ''parts''))
          in if t = [] then Null else Str t)"
proof (cases "isArray h (opt_dot h content ''parts'')")
  case True
  then have tr: "truthy (opt_dot h content ''parts'')"
    by (cases "opt_dot h content ''parts''") (auto simp: isArray_def)
  then have "\<not> nullish content"
    by (auto simp: opt_dot_def split: if_splits)
  then have d: "dot h content ''parts'' = Inr (opt_dot h content ''parts'')"
    by (simp add: dot_def opt_dot_def)
  show ?thesis
    using True tr d
    by (simp add: primary_def part_text_eq join_filter_truthy filter_truthy_empty_iff Let_def
        collect_map_Inr [where g = "\<lambda>p. Str (case text_field h p of None \<Rightarrow> [] | Some s \<Rightarrow> s)"])
next
  case False
  then have "elements h (opt_dot h content ''parts'') = []"
    by (auto simp: isArray_def elements_def split: jsval.splits jsobj.splits)
  moreover have "primary h content = Inr Null"
    using False by (auto simp: primary_def dot_def opt_dot_def split: sum.splits)
  ultimately show ?thesis
    by (simp add: string_texts_def)
qed

lemma try_block_eq:
  "try_block h (candidate_of h result) result =
     (if nullish result then Inl TypeError else JSON_stringify h (most_specific h result))"
proof (cases "nullish result")
  case True
  then have "candidate_of h result = Undefined"
    by (simp add: candidate_of_def opt_dot_def)
  then show ?thesis
    using True by (simp add: try_block_def fragment_def dot_def)
next
  case False
  then show ?thesis
    by (simp add: try_block_def fragment_def dot_def opt_dot_def most_specific_def coalesce_def)
qed

lemma fallback_falsy:
  "\<not> truthy x \<Longrightarrow> fallback h (candidate_of h result) result x = last_resort h result"
  by (simp add: fallback_def last_resort_def)

lemma secondary_eq:
  "secondary h result x =
     Inr (if \<not> truthy x \<and> is_string (opt_dot h result ''response'')
          then opt_dot h result ''response'' else x)"
proof (cases "nullish result")
  case True
  then show ?thesis
    by (simp add: secondary_def opt_dot_def)
next
  case False
  then show ?thesis
    by (simp add: secondary_def opt_dot_def dot_def typeof_string_iff)
qed

text \<open>The three steps, in their order.\<close>

lemma normalize_cases:
  "normalize_response h result =
     (if primary_texts h result \<noteq> [] then Inr (Str (primary_texts h result))
      else if nonempty_string (opt_dot h result ''response'') then Inr (opt_dot h result ''response'')
      else last_resort h result)"
proof -
  let ?t = "primary_texts h result"
  let ?r = "opt_dot h result ''response''"
  have p: "primary h (opt_dot h (candidate_of h result) ''content'') = Inr (if ?t = [] then Null else Str ?t)"
    by (simp add: primary_eq primary_texts_def parts_of_def content_of_def Let_def)
  show ?thesis
  proof (cases "?t = []")
    case False
    then show ?thesis
      by (simp add: normalize_response_def p secondary_eq fallback_def)
  next
    case True
    show ?thesis
    proof (cases "nonempty_string ?r")
      case True
      then obtain s where "?r = Str s" "s \<noteq> []"
        by (cases ?r) auto
      then show ?thesis
        using \<open>?t = []\<close> by (simp add: normalize_response_def p secondary_eq fallback_def)
    next
      case False
      then have "\<not> truthy (if is_string ?r then ?r else Null)"
        by (cases ?r) auto
      then show ?thesis
        using \<open>?t = []\<close> False
        by (simp add: normalize_response_def p secondary_eq fallback_falsy)
    qed
  qed
qed

lemma num_text_nonempty: "num_text n \<noteq> []"
  by (simp add: num_text_def)

text \<open>
  Below the first step, the serialisation is \<^verbatim>\<open>undefined\<close> for \<^verbatim>\<open>undefined\<close> and for a
  function, and for nothing else; a string it gives is never empty.
\<close>

lemma ser_undefined_iff: "ser h st v = Inr None \<longleftrightarrow> v = Undefined \<or> callable h v"
  by (cases v) (auto simp: callable_def split: jsobj.splits sum.splits)

lemma ser_nonempty: "ser h st v = Inr (Some s) \<Longrightarrow> s \<noteq> []"
  by (cases v) (auto simp: num_text_nonempty quote_def split: jsobj.splits sum.splits if_splits)

lemma JSON_stringify_value:
  assumes "JSON_stringify h v = Inr x"
  shows "x = Undefined \<or> (\<exists>s. x = Str s \<and> s \<noteq> [])"
  using assms ser_nonempty
  by (auto simp: JSON_stringify_def split: sum.splits option.splits)

text \<open>
  \<^verbatim>\<open>JSON.stringify\<close> gives \<^verbatim>\<open>undefined\<close> exactly for \<^verbatim>\<open>undefined\<close>, for a function, and for an
  object whose \<^verbatim>\<open>toJSON\<close> returns one of the two.
\<close>

lemma JSON_stringify_undefined_iff:
  "JSON_stringify h v = Inr Undefined
     \<longleftrightarrow> (\<exists>v'. to_json h v = Inr v' \<and> (v' = Undefined \<or> callable h v'))"
proof (cases "to_json h v")
  case (Inl e)
  then show ?thesis
    by (simp add: JSON_stringify_def)
next
  case (Inr v')
  have "JSON_stringify h v = Inr Undefined \<longleftrightarrow> ser h [] v' = Inr None"
    using Inr by (simp add: JSON_stringify_def split: sum.splits option.splits)
  then show ?thesis
    using Inr by (simp add: ser_undefined_iff)
qed

lemma string_texts_empty_iff:
  "string_texts h ps = [] \<longleftrightarrow> (\<forall>p \<in> set ps. \<forall>s. text_field h p = Some s \<longrightarrow> s = [])"
  by (induction ps) (auto simp: string_texts_def split: option.splits)

lemma nonempty_texts_eq: "nonempty_texts h ps = string_texts h ps"
  by (induction ps) (auto simp: nonempty_texts_def string_texts_def split: option.splits)

lemma parts_of_array:
  "opt_dot h (content_of h result) ''parts'' = Ref a \<Longrightarrow> obj_at h a = Arr ps \<Longrightarrow> parts_of h result = ps"
  by (simp add: parts_of_def elements_def)

lemma string_response_has_no_parts:
  assumes "is_string (opt_dot h result ''response'')"
  shows "parts_of h result = []"
proof -
  obtain s where "opt_dot h result ''response'' = Str s"
    using assms by (cases "opt_dot h result ''response''") auto
  then have "candidate_of h result = Undefined"
    by (simp add: candidate_of_def opt_dot_def)
  then show ?thesis
    by (simp add: parts_of_def content_of_def opt_dot_def elements_def)
qed

lemma last_resort_eq:
  "last_resort h result =
     (if nullish result then String_of h result
      else case JSON_stringify h (most_specific h result) of
             Inr v \<Rightarrow> Inr v
           | Inl e \<Rightarrow> String_of h result)"
  by (simp add: last_resort_def try_block_eq)

lemma String_of_nullish:
  "nullish result \<Longrightarrow> \<exists>s. s \<noteq> [] \<and> String_of h result = Inr (Str s)"
  by (cases result) (simp_all add: String_of_def)

lemma validate_accepts_iff: "validate h prompt = Inr v \<longleftrightarrow> nonempty_string prompt \<and> v = prompt"
  by (cases prompt) (auto simp: validate_def split: jsobj.splits)

lemma validate_rejects_iff: "validate h prompt = Inl e \<longleftrightarrow> \<not> nonempty_string prompt \<and> e = missing_input"
  by (cases prompt) (auto simp: validate_def split: jsobj.splits)

lemma rejected_prompt_stops:
  "validate h prompt = Inl e \<Longrightarrow> generateContent model h prompt = (Inl e, \<lparr>calls = [], console = []\<rparr>)"
  by (simp add: generateContent_def)

lemma accepted_prompt_is_forwarded:
  "validate h prompt = Inr p \<Longrightarrow> calls (snd (generateContent model h prompt)) = [p]"
  by (auto simp: generateContent_def split: sum.splits prod.splits)

text \<open>What comes back is what the SDK answers to the checked prompt, reduced.\<close>

lemma outcome_is_sdk_at_prompt:
  "validate h prompt = Inr p \<Longrightarrow>
     fst (generateContent model h prompt) =
       (case model p of Inl e \<Rightarrow> Inl e | Inr (h', result) \<Rightarrow> normalize_response h' result)"
  by (auto simp: generateContent_def split: sum.splits prod.splits)

lemma absent_empty_or_not_string_iff: "absent_empty_or_not_string prompt \<longleftrightarrow> \<not> nonempty_string prompt"
  by (cases prompt) (auto simp: absent_empty_or_not_string_def)


section \<open>The claims\<close>

subsection \<open>C1: the parts' texts are concatenated\<close>

text \<open>
  Claim C1, as the code has it. When the first candidate's content holds a parts array
  and at least one part has a text field that is a string with characters in it,
  \<^const>\<open>normalize_response\<close> returns the concatenation, in array order and with no
  separator, of the text fields of exactly those parts whose text is a string; a part
  without a string text contributes nothing.
\<close>

theorem string_parts_are_concatenated:
  assumes "opt_dot h (content_of h result) ''parts'' = Ref a"
      and "obj_at h a = Arr ps"
      and "\<exists>p \<in> set ps. \<exists>s. text_field h p = Some s \<and> s \<noteq> []"
  shows "normalize_response h result = Inr (Str (string_texts h ps))"
proof -
  have "parts_of h result = ps"
    using assms(1,2) by (rule parts_of_array)
  moreover have "string_texts h ps \<noteq> []"
    using assms(3) by (auto simp: string_texts_empty_iff)
  ultimately show ?thesis
    by (simp add: normalize_cases primary_texts_def)
qed

text \<open>
  At the specification's example, the parts \<^verbatim>\<open>[{text:"Looks "}, {other:1}, {text:"good."}]\<close>,
  the result is \<^verbatim>\<open>Looks good.\<close>
\<close>

theorem string_parts_are_concatenated_witness:
  "opt_dot review_response (content_of review_response (Ref 0)) ''parts'' = Ref 5
   \<and> obj_at review_response 5 = Arr [Ref 6, Ref 7, Ref 8]
   \<and> text_field review_response (Ref 6) = Some ''Looks ''
   \<and> text_field review_response (Ref 7) = None
   \<and> text_field review_response (Ref 8) = Some ''good.''
   \<and> normalize_response review_response (Ref 0) = Inr (Str ''Looks good.'')"
proof -
  have parts: "opt_dot review_response (content_of review_response (Ref 0)) ''parts'' = Ref 5"
    and arr: "obj_at review_response 5 = Arr [Ref 6, Ref 7, Ref 8]"
    and t6: "text_field review_response (Ref 6) = Some ''Looks ''"
    and t7: "text_field review_response (Ref 7) = None"
    and t8: "text_field review_response (Ref 8) = Some ''good.''"
    by (simp_all add: review_response_def content_of_def candidate_of_def opt_dot_def obj_at_def
        text_field_def)
  have "\<exists>p \<in> set [Ref 6, Ref 7, Ref 8]. \<exists>s. text_field review_response p = Some s \<and> s \<noteq> []"
    using t6 by simp
  then have "normalize_response review_response (Ref 0)
               = Inr (Str (string_texts review_response [Ref 6, Ref 7, Ref 8]))"
    using string_parts_are_concatenated [OF parts arr] by simp
  then show ?thesis
    using parts arr t6 t7 t8 by (simp add: string_texts_def)
qed

text \<open>
  The claim as it is written asks only for a part whose text is a string. The parts
  \<^verbatim>\<open>[{ text: "" }]\<close> have one, and the concatenation of the string texts is the empty
  string; \<^verbatim>\<open>filter(Boolean)\<close> drops the empty text, \<^verbatim>\<open>texts.length\<close> is 0, and the result is
  the serialised candidate instead.
\<close>

theorem empty_text_part_counterexample:
  \<open>opt_dot empty_text_response (content_of empty_text_response (Ref 0)) ''parts'' = Ref 5
   \<and> obj_at empty_text_response 5 = Arr [Ref 6]
   \<and> text_field empty_text_response (Ref 6) = Some []
   \<and> string_texts empty_text_response [Ref 6] = []
   \<and> normalize_response empty_text_response (Ref 0) = Inr (Str ''{"content":{"parts":[{"text":""}]}}'')
   \<and> normalize_response empty_text_response (Ref 0) \<noteq> Inr (Str (string_texts empty_text_response [Ref 6]))\<close>
  by (simp add: model_defs text_defs empty_text_response_def)

subsection \<open>C2: the result is a string\<close>

text \<open>
  Claim C2, as the code has it. For every input, one of three things happens.
  \<^const>\<open>normalize_response\<close> returns a string. Or both paths failed and \<^verbatim>\<open>JSON.stringify\<close>
  gave \<^verbatim>\<open>undefined\<close> for the fragment, which it does when the fragment is a function or
  its \<^verbatim>\<open>toJSON\<close> returns \<^verbatim>\<open>undefined\<close> or a function: then the value returned is \<^verbatim>\<open>undefined\<close>.
  Or both paths failed, \<^verbatim>\<open>JSON.stringify\<close> raised, \<^verbatim>\<open>String(result)\<close> raised as well, and
  that exception leaves the function. It never returns \<^verbatim>\<open>null\<close> or an object.
\<close>

theorem result_is_string_or_undefined:
  "(\<exists>s. normalize_response h result = Inr (Str s))
   \<or> (normalize_response h result = Inr Undefined \<and> paths_fail h result
        \<and> JSON_stringify h (most_specific h result) = Inr Undefined
        \<and> (\<exists>v'. to_json h (most_specific h result) = Inr v' \<and> (v' = Undefined \<or> callable h v')))
   \<or> (\<exists>e. normalize_response h result = Inl e \<and> paths_fail h result
        \<and> String_of h result = Inl e
        \<and> (\<exists>e'. JSON_stringify h (most_specific h result) = Inl e'))"
proof (cases "paths_fail h result")
  case False
  then have "\<exists>s. normalize_response h result = Inr (Str s)"
    by (cases "opt_dot h result ''response''") (auto simp: normalize_cases paths_fail_def)
  then show ?thesis by simp
next
  case True
  then have n: "normalize_response h result = last_resort h result"
    by (simp add: normalize_cases paths_fail_def)
  show ?thesis
  proof (cases "nullish result")
    case True
    then show ?thesis
      using n String_of_nullish [of result h] by (auto simp: last_resort_eq)
  next
    case False
    show ?thesis
    proof (cases "JSON_stringify h (most_specific h result)")
      case (Inr x)
      then have r: "normalize_response h result = Inr x"
        using n False by (simp add: last_resort_eq)
      show ?thesis
      proof (cases "x = Undefined")
        case True
        then show ?thesis
          using r Inr \<open>paths_fail h result\<close>
            JSON_stringify_undefined_iff [of h "most_specific h result"]
          by simp
      next
        case False
        then show ?thesis
          using r JSON_stringify_value [OF Inr] by auto
      qed
    next
      case (Inl e')
      then have "normalize_response h result = String_of h result"
        using n False by (simp add: last_resort_eq)
      then show ?thesis
        using Inl \<open>paths_fail h result\<close>
        by (cases "to_string h [] result") (auto simp: String_of_def)
    qed
  qed
qed

text \<open>
  Each of the three happens: a candidate without content is serialised to a string; a
  candidate whose \<^verbatim>\<open>toJSON\<close> returns \<^verbatim>\<open>undefined\<close> gives \<^verbatim>\<open>undefined\<close>, and so does a function in
  the place of the response field; and the circular object
  \<^verbatim>\<open>o = { toString: "x" }; o.self = o\<close> raises a TypeError.
\<close>

theorem result_is_string_or_undefined_witness:
  \<open>normalize_response unfinished_response (Ref 0) = Inr (Str ''{"finishReason":"SAFETY","index":0}'')
   \<and> normalize_response toJSON_candidate (Ref 0) = Inr Undefined
   \<and> most_specific toJSON_candidate (Ref 0) = Ref 3
   \<and> to_json toJSON_candidate (Ref 3) = Inr Undefined
   \<and> normalize_response [Obj [(''response'', Ref 1)], Fun ''function () {}'' Throws] (Ref 0) = Inr Undefined
   \<and> callable [Obj [(''response'', Ref 1)], Fun ''function () {}'' Throws]
        (most_specific [Obj [(''response'', Ref 1)], Fun ''function () {}'' Throws] (Ref 0))
   \<and> normalize_response circular_toString_object (Ref 0) = Inl TypeError
   \<and> String_of circular_toString_object (Ref 0) = Inl TypeError\<close>
  using result_is_string_or_undefined [of unfinished_response "Ref 0"]
        result_is_string_or_undefined [of toJSON_candidate "Ref 0"]
        result_is_string_or_undefined [of "[Obj [(''response'', Ref 1)], Fun ''function () {}'' Throws]" "Ref 0"]
        result_is_string_or_undefined [of circular_toString_object "Ref 0"]
  by (simp add: model_defs most_specific_def unfinished_response_def toJSON_candidate_def
      circular_toString_object_def)

text \<open>
  The claim as it is written, a string for every input, fails where the first candidate
  is a function: \<^verbatim>\<open>candidate?.content\<close> is \<^verbatim>\<open>undefined\<close>, no path gives text,
  \<^verbatim>\<open>JSON.stringify(candidate)\<close> is \<^verbatim>\<open>undefined\<close> without raising, and \<^verbatim>\<open>undefined\<close> is
  returned.
\<close>

theorem function_candidate_counterexample:
  "candidate_of function_candidate (Ref 0) = Ref 3
   \<and> typeof function_candidate (Ref 3) = ''function''
   \<and> normalize_response function_candidate (Ref 0) = Inr Undefined
   \<and> \<not> is_string Undefined"
  by (simp add: model_defs function_candidate_def)

subsection \<open>C3: without text, a non-empty string and no exception\<close>

text \<open>
  Claim C3, as the code has it. When both paths fail, \<^const>\<open>normalize_response\<close> raises
  nothing and returns a string that is not empty in exactly three cases: the result is
  \<^verbatim>\<open>null\<close> or \<^verbatim>\<open>undefined\<close>; or \<^verbatim>\<open>JSON.stringify\<close> gives a string for the fragment; or
  \<^verbatim>\<open>JSON.stringify\<close> raises, as it does for a circular structure, and \<^verbatim>\<open>String(result)\<close>
  gives a string that is not empty. What is left is the fragment for which
  \<^verbatim>\<open>JSON.stringify\<close> gives \<^verbatim>\<open>undefined\<close>, and the result that cannot be serialised and for
  which \<^verbatim>\<open>String\<close> raises or gives the empty string.
\<close>

theorem fallback_is_nonempty_string:
  assumes "paths_fail h result"
  shows "(\<exists>s. s \<noteq> [] \<and> normalize_response h result = Inr (Str s))
         \<longleftrightarrow> (nullish result
              \<or> (\<exists>s. JSON_stringify h (most_specific h result) = Inr (Str s))
              \<or> ((\<exists>e. JSON_stringify h (most_specific h result) = Inl e)
                  \<and> (\<exists>s. s \<noteq> [] \<and> String_of h result = Inr (Str s))))"
proof -
  have n: "normalize_response h result = last_resort h result"
    using assms by (simp add: normalize_cases paths_fail_def)
  show ?thesis
  proof (cases "nullish result")
    case True
    then show ?thesis
      using n String_of_nullish [of result h] by (simp add: last_resort_eq)
  next
    case False
    show ?thesis
    proof (cases "JSON_stringify h (most_specific h result)")
      case (Inr x)
      then have "normalize_response h result = Inr x"
        using n False by (simp add: last_resort_eq)
      then show ?thesis
        using False Inr JSON_stringify_value [OF Inr] by auto
    next
      case (Inl e)
      then have "normalize_response h result = String_of h result"
        using n False by (simp add: last_resort_eq)
      then show ?thesis
        using False Inl by auto
    qed
  qed
qed

text \<open>
  The circular object \<^verbatim>\<open>o.self = o\<close> cannot be serialised and comes out as
  \<^verbatim>\<open>[object Object]\<close>, the circular array \<^verbatim>\<open>b = [1]; b[1] = b\<close> as \<^verbatim>\<open>1,\<close>; \<^verbatim>\<open>undefined\<close> and
  \<^verbatim>\<open>null\<close> come out as their names; an empty object is serialised.
\<close>

theorem fallback_is_nonempty_string_witness:
  \<open>paths_fail circular_object (Ref 0)
   \<and> JSON_stringify circular_object (most_specific circular_object (Ref 0)) = Inl TypeError
   \<and> String_of circular_object (Ref 0) = Inr (Str ''[object Object]'')
   \<and> normalize_response circular_object (Ref 0) = Inr (Str ''[object Object]'')
   \<and> paths_fail circular_array_with_number (Ref 0)
   \<and> JSON_stringify circular_array_with_number (most_specific circular_array_with_number (Ref 0))
       = Inl TypeError
   \<and> normalize_response circular_array_with_number (Ref 0) = Inr (Str ''1,'')
   \<and> paths_fail [] Undefined
   \<and> normalize_response [] Undefined = Inr (Str ''undefined'')
   \<and> paths_fail [] Null
   \<and> normalize_response [] Null = Inr (Str ''null'')
   \<and> paths_fail [Obj []] (Ref 0)
   \<and> JSON_stringify [Obj []] (most_specific [Obj []] (Ref 0)) = Inr (Str ''{}'')
   \<and> normalize_response [Obj []] (Ref 0) = Inr (Str ''{}'')\<close>
  using fallback_is_nonempty_string [of circular_object "Ref 0"]
        fallback_is_nonempty_string [of circular_array_with_number "Ref 0"]
        fallback_is_nonempty_string [of "[]" Undefined]
        fallback_is_nonempty_string [of "[]" Null]
        fallback_is_nonempty_string [of "[Obj []]" "Ref 0"]
  by (simp add: model_defs text_defs paths_fail_def most_specific_def circular_object_def
      circular_array_with_number_def)

text \<open>
  The claim as it is written fails at the circular object \<^verbatim>\<open>o = { toString: "x" }; o.self = o\<close>:
  it has no text, \<^verbatim>\<open>JSON.stringify(o)\<close> raises for the cycle, and \<^verbatim>\<open>String(o)\<close> in the
  \<^verbatim>\<open>catch\<close> clause finds a \<^verbatim>\<open>toString\<close> that is no function and a \<^verbatim>\<open>valueOf\<close> that returns
  an object: the TypeError leaves the function.
\<close>

theorem circular_toString_object_counterexample:
  "paths_fail circular_toString_object (Ref 0)
   \<and> most_specific circular_toString_object (Ref 0) = Ref 0
   \<and> JSON_stringify circular_toString_object (Ref 0) = Inl TypeError
   \<and> String_of circular_toString_object (Ref 0) = Inl TypeError
   \<and> normalize_response circular_toString_object (Ref 0) = Inl TypeError"
  by (simp add: model_defs text_defs paths_fail_def most_specific_def circular_toString_object_def)

text \<open>
  The other ways to fail happen too. A candidate whose \<^verbatim>\<open>toJSON\<close> returns \<^verbatim>\<open>undefined\<close> is
  serialised to \<^verbatim>\<open>undefined\<close>, and so is a function in the place of the result. A
  circular object whose \<^verbatim>\<open>toString\<close> returns the empty string comes out as the empty
  string, and so does the circular array \<^verbatim>\<open>a[0] = a\<close>: \<^verbatim>\<open>String(a)\<close> joins the elements of an
  array that is already being joined, which Node gives as the empty string.
\<close>

lemma toJSON_candidate_gives_undefined:
  "paths_fail toJSON_candidate (Ref 0)
   \<and> JSON_stringify toJSON_candidate (most_specific toJSON_candidate (Ref 0)) = Inr Undefined
   \<and> normalize_response toJSON_candidate (Ref 0) = Inr Undefined"
  by (simp add: model_defs text_defs paths_fail_def most_specific_def toJSON_candidate_def)

lemma function_result_gives_undefined:
  "paths_fail [Fun ''function () {}'' Throws] (Ref 0)
   \<and> JSON_stringify [Fun ''function () {}'' Throws]
        (most_specific [Fun ''function () {}'' Throws] (Ref 0)) = Inr Undefined
   \<and> normalize_response [Fun ''function () {}'' Throws] (Ref 0) = Inr Undefined"
  by (simp add: model_defs text_defs paths_fail_def most_specific_def)

lemma circular_empty_toString_object_gives_empty_string:
  "paths_fail circular_empty_toString_object (Ref 0)
   \<and> JSON_stringify circular_empty_toString_object
        (most_specific circular_empty_toString_object (Ref 0)) = Inl TypeError
   \<and> normalize_response circular_empty_toString_object (Ref 0) = Inr (Str [])"
  by (simp add: model_defs text_defs paths_fail_def most_specific_def
      circular_empty_toString_object_def)

lemma circular_array_gives_empty_string:
  "paths_fail circular_array (Ref 0)
   \<and> JSON_stringify circular_array (most_specific circular_array (Ref 0)) = Inl TypeError
   \<and> normalize_response circular_array (Ref 0) = Inr (Str [])"
  by (simp add: model_defs text_defs paths_fail_def most_specific_def circular_array_def)

subsection \<open>C4: a string response is returned\<close>

text \<open>
  Claim C4, as the code has it. When the top-level response field is a string with
  characters in it, there are no parts to take text from, and
  \<^const>\<open>normalize_response\<close> returns that string unchanged.
\<close>

theorem string_response_is_returned:
  assumes "opt_dot h result ''response'' = Str s" and "s \<noteq> []"
  shows "primary_texts h result = [] \<and> normalize_response h result = Inr (Str s)"
proof -
  have "parts_of h result = []"
    using assms(1) by (simp add: string_response_has_no_parts)
  then have "primary_texts h result = []"
    by (simp add: primary_texts_def string_texts_def)
  then show ?thesis
    using assms by (simp add: normalize_cases)
qed

text \<open>The specification's example \<^verbatim>\<open>{ response: "plain text" }\<close>.\<close>

theorem string_response_is_returned_witness:
  "opt_dot plain_text_response (Ref 0) ''response'' = Str ''plain text''
   \<and> ''plain text'' \<noteq> []
   \<and> normalize_response plain_text_response (Ref 0) = Inr (Str ''plain text'')"
  using string_response_is_returned [of plain_text_response "Ref 0" "''plain text''"]
  by (simp add: plain_text_response_def opt_dot_def obj_at_def)

text \<open>
  The claim as it is written covers the empty string too. For \<^verbatim>\<open>{ response: "" }\<close> the
  second step assigns the empty string, \<^verbatim>\<open>!extracted\<close> is true of it, and the last step
  serialises the response: the result is the two characters \<^verbatim>\<open>""\<close>.
\<close>

theorem empty_string_response_counterexample:
  \<open>opt_dot empty_string_response (Ref 0) ''response'' = Str []
   \<and> primary_texts empty_string_response (Ref 0) = []
   \<and> normalize_response empty_string_response (Ref 0) = Inr (Str ''""'')
   \<and> normalize_response empty_string_response (Ref 0) \<noteq> Inr (Str [])\<close>
  by (simp add: model_defs text_defs empty_string_response_def)

subsection \<open>C5: the last resort\<close>

text \<open>
  Claim C5, as the code has it. When the primary and the secondary path both fail and
  the result is not \<^verbatim>\<open>undefined\<close>, \<^const>\<open>normalize_response\<close> does what the claim says: it
  returns what \<^verbatim>\<open>JSON.stringify\<close> gives for the most specific fragment, the first
  candidate if there is one, else the response field, else the whole result, and if that
  raises it returns \<^verbatim>\<open>String(result)\<close>. What \<^verbatim>\<open>JSON.stringify\<close> gives is a string or
  \<^verbatim>\<open>undefined\<close>, and \<^verbatim>\<open>String(result)\<close> can raise in its turn. For the result \<^verbatim>\<open>undefined\<close>
  nothing is serialised: reading \<^verbatim>\<open>result.response\<close> raises inside the \<^verbatim>\<open>try\<close> block, and
  the \<^verbatim>\<open>catch\<close> clause returns the string \<^verbatim>\<open>undefined\<close>.
\<close>

theorem fallback_serialises_most_specific_fragment:
  assumes "paths_fail h result"
  shows "normalize_response h result =
           (if result = Undefined then Inr (Str ''undefined'') else fallback_as_worded h result)"
proof (cases "nullish result")
  case True
  then have "most_specific h result = result"
    by (simp add: most_specific_def candidate_of_def opt_dot_def)
  then show ?thesis
    using assms True
    by (cases result)
       (simp_all add: normalize_cases paths_fail_def last_resort_eq fallback_as_worded_def
          JSON_stringify_def to_json_def String_of_def)
next
  case False
  then have "result \<noteq> Undefined"
    by auto
  then show ?thesis
    using assms False
    by (simp add: normalize_cases paths_fail_def last_resort_eq fallback_as_worded_def)
qed

text \<open>
  One input for each fragment and one for each way out: a candidate without content, a
  response without candidates, an empty object, \<^verbatim>\<open>null\<close>, a circular object, and
  \<^verbatim>\<open>undefined\<close>.
\<close>

theorem fallback_serialises_most_specific_fragment_witness:
  \<open>paths_fail unfinished_response (Ref 0)
   \<and> most_specific unfinished_response (Ref 0) = Ref 3
   \<and> normalize_response unfinished_response (Ref 0) = Inr (Str ''{"finishReason":"SAFETY","index":0}'')
   \<and> paths_fail blocked_response (Ref 0)
   \<and> most_specific blocked_response (Ref 0) = Ref 1
   \<and> normalize_response blocked_response (Ref 0) = Inr (Str ''{"promptFeedback":{"blockReason":"SAFETY"}}'')
   \<and> paths_fail [Obj []] (Ref 0)
   \<and> most_specific [Obj []] (Ref 0) = Ref 0
   \<and> normalize_response [Obj []] (Ref 0) = Inr (Str ''{}'')
   \<and> paths_fail [] Null
   \<and> normalize_response [] Null = Inr (Str ''null'')
   \<and> paths_fail circular_object (Ref 0)
   \<and> JSON_stringify circular_object (most_specific circular_object (Ref 0)) = Inl TypeError
   \<and> normalize_response circular_object (Ref 0) = Inr (Str ''[object Object]'')
   \<and> paths_fail [] Undefined
   \<and> normalize_response [] Undefined = Inr (Str ''undefined'')\<close>
  using fallback_serialises_most_specific_fragment [of unfinished_response "Ref 0"]
        fallback_serialises_most_specific_fragment [of blocked_response "Ref 0"]
        fallback_serialises_most_specific_fragment [of "[Obj []]" "Ref 0"]
        fallback_serialises_most_specific_fragment [of "[]" Null]
        fallback_serialises_most_specific_fragment [of circular_object "Ref 0"]
        fallback_serialises_most_specific_fragment [of "[]" Undefined]
  by (simp add: model_defs text_defs paths_fail_def most_specific_def fallback_as_worded_def
      unfinished_response_def blocked_response_def circular_object_def)

text \<open>
  The claim as it is written fails at the result \<^verbatim>\<open>undefined\<close>. Both paths fail, the
  most specific fragment is the result itself, and \<^verbatim>\<open>JSON.stringify(undefined)\<close> is
  \<^verbatim>\<open>undefined\<close> and raises nothing; yet the code returns the string \<^verbatim>\<open>undefined\<close>, which is
  \<^verbatim>\<open>String(result)\<close>.
\<close>

theorem undefined_result_counterexample:
  "paths_fail [] Undefined
   \<and> most_specific [] Undefined = Undefined
   \<and> JSON_stringify [] Undefined = Inr Undefined
   \<and> fallback_as_worded [] Undefined = Inr Undefined
   \<and> normalize_response [] Undefined = Inr (Str ''undefined'')
   \<and> normalize_response [] Undefined \<noteq> fallback_as_worded [] Undefined"
  by (simp add: model_defs text_defs paths_fail_def most_specific_def fallback_as_worded_def)

subsection \<open>C6: the first success wins\<close>

text \<open>
  Claim C6. When the parts whose text is a non-empty string give a non-empty
  concatenation, \<^const>\<open>normalize_response\<close> returns exactly that concatenation; and the two
  later steps hand such a string on untouched, whatever the result and the candidate
  are.
\<close>

theorem primary_text_wins:
  assumes "nonempty_texts h (parts_of h result) \<noteq> []"
  shows "normalize_response h result = Inr (Str (nonempty_texts h (parts_of h result)))
         \<and> (\<forall>result' candidate'.
               secondary h result' (Str (nonempty_texts h (parts_of h result)))
                 = Inr (Str (nonempty_texts h (parts_of h result)))
               \<and> fallback h candidate' result' (Str (nonempty_texts h (parts_of h result)))
                 = Inr (Str (nonempty_texts h (parts_of h result))))"
  using assms
  by (simp add: normalize_cases primary_texts_def nonempty_texts_eq secondary_eq fallback_def)

theorem primary_text_wins_witness:
  "nonempty_texts review_response (parts_of review_response (Ref 0)) = ''Looks good.''
   \<and> normalize_response review_response (Ref 0) = Inr (Str ''Looks good.'')
   \<and> secondary review_response (Str ''unused'') (Str ''Looks good.'') = Inr (Str ''Looks good.'')
   \<and> fallback review_response (Ref 3) (Ref 0) (Str ''Looks good.'') = Inr (Str ''Looks good.'')"
proof -
  have t: "nonempty_texts review_response (parts_of review_response (Ref 0)) = ''Looks good.''"
    by (simp add: review_response_def nonempty_texts_def parts_of_def content_of_def candidate_of_def
        opt_dot_def obj_at_def elements_def text_field_def)
  then have "nonempty_texts review_response (parts_of review_response (Ref 0)) \<noteq> []"
    by simp
  from primary_text_wins [OF this] show ?thesis
    by (simp add: t)
qed

subsection \<open>C7: a missing prompt is rejected before the SDK is called\<close>

text \<open>
  Claim C7. The check fails, with the error \<^const>\<open>missing_input\<close>, exactly when the prompt
  is absent, empty, or not a string, and succeeds with the prompt itself otherwise; and
  when it fails, \<^const>\<open>generateContent\<close> raises that error without calling the SDK and
  without logging. The specification's \<^verbatim>\<open>validate\<close> takes the request body; the prompt
  is its \<^verbatim>\<open>code\<close> field.
\<close>

theorem validation_rejects_missing_input:
  "(validate h prompt = Inl missing_input \<longleftrightarrow> absent_empty_or_not_string prompt)
   \<and> (validate h prompt = Inr prompt \<longleftrightarrow> \<not> absent_empty_or_not_string prompt)
   \<and> (absent_empty_or_not_string prompt \<longrightarrow>
        generateContent model h prompt = (Inl missing_input, \<lparr>calls = [], console = []\<rparr>))"
proof (intro conjI impI)
  show "validate h prompt = Inl missing_input \<longleftrightarrow> absent_empty_or_not_string prompt"
    by (simp add: validate_rejects_iff absent_empty_or_not_string_iff)
  show "validate h prompt = Inr prompt \<longleftrightarrow> \<not> absent_empty_or_not_string prompt"
    by (simp add: validate_accepts_iff absent_empty_or_not_string_iff)
next
  assume "absent_empty_or_not_string prompt"
  then have "validate h prompt = Inl missing_input"
    by (simp add: validate_rejects_iff absent_empty_or_not_string_iff)
  then show "generateContent model h prompt = (Inl missing_input, \<lparr>calls = [], console = []\<rparr>)"
    by (rule rejected_prompt_stops)
qed

text \<open>
  The specification's examples \<^verbatim>\<open>validate({})\<close>, \<^verbatim>\<open>validate({ code: "" })\<close> and
  \<^verbatim>\<open>validate({ code: "x" })\<close>, and the number 7 as a prompt.
\<close>

theorem validation_rejects_missing_input_witness:
  "validate [Obj []] (opt_dot [Obj []] (Ref 0) ''code'') = Inl missing_input
   \<and> validate [Obj [(''code'', Str [])]] (opt_dot [Obj [(''code'', Str [])]] (Ref 0) ''code'')
       = Inl missing_input
   \<and> validate [Obj [(''code'', Str ''x'')]] (opt_dot [Obj [(''code'', Str ''x'')]] (Ref 0) ''code'')
       = Inr (Str ''x'')
   \<and> absent_empty_or_not_string (Num ''7'')
   \<and> generateContent review_sdk [] (Num ''7'') = (Inl missing_input, \<lparr>calls = [], console = []\<rparr>)"
  using validation_rejects_missing_input [of "[Obj []]" Undefined review_sdk]
        validation_rejects_missing_input [of "[Obj [(''code'', Str [])]]" "Str []" review_sdk]
        validation_rejects_missing_input [of "[Obj [(''code'', Str ''x'')]]" "Str ''x''" review_sdk]
        validation_rejects_missing_input [of "[]" "Num ''7''" review_sdk]
  by (simp add: absent_empty_or_not_string_def opt_dot_def obj_at_def)

subsection \<open>C8: the prompt reaches the SDK unmodified\<close>

text \<open>
  Claim C8. A prompt that is a string with characters in it passes the check as it is,
  and \<^const>\<open>generateContent\<close> calls the SDK once, with exactly that string: what it returns
  or raises is what the SDK answers to that very string, reduced by
  \<^const>\<open>normalize_response\<close>, whatever the SDK is. Nothing is trimmed and nothing is cut.
\<close>

theorem prompt_reaches_sdk_unmodified:
  "s \<noteq> [] \<Longrightarrow>
     validate h (Str s) = Inr (Str s)
     \<and> calls (snd (generateContent model h (Str s))) = [Str s]
     \<and> fst (generateContent model h (Str s)) =
         (case model (Str s) of
            Inl e \<Rightarrow> Inl e
          | Inr (h', result) \<Rightarrow> normalize_response h' result)"
  by (simp add: validate_accepts_iff accepted_prompt_is_forwarded outcome_is_sdk_at_prompt)

text \<open>
  An SDK that answers with its argument gives the prompt back, with the blanks at its
  ends; one that rejects gives its rejection.
\<close>

theorem prompt_reaches_sdk_unmodified_witness:
  "''  let x = 1;  '' \<noteq> []
   \<and> validate [] (Str ''  let x = 1;  '') = Inr (Str ''  let x = 1;  '')
   \<and> calls (snd (generateContent echo_sdk [] (Str ''  let x = 1;  ''))) = [Str ''  let x = 1;  '']
   \<and> fst (generateContent echo_sdk [] (Str ''  let x = 1;  '')) = Inr (Str ''  let x = 1;  '')
   \<and> fst (generateContent unavailable_sdk [] (Str ''  let x = 1;  '')) = Inl (Rejected ''fetch failed'')"
  using prompt_reaches_sdk_unmodified [of "''  let x = 1;  ''" "[]" echo_sdk]
        prompt_reaches_sdk_unmodified [of "''  let x = 1;  ''" "[]" unavailable_sdk]
  by (simp add: echo_sdk_def unavailable_sdk_def model_defs)

subsection \<open>C9: malformed parts raise nothing\<close>

text \<open>
  Claim C9. The first step never raises: its value is \<^verbatim>\<open>null\<close> or the concatenation of
  the parts' string texts, whatever the entries of the parts array are. An entry that
  has no string text, be it \<^verbatim>\<open>null\<close>, \<^verbatim>\<open>undefined\<close>, a primitive or an object with another or
  no text field, is mapped to the empty string. When \<^verbatim>\<open>content.parts\<close> is not an array the
  step leaves \<^verbatim>\<open>extracted\<close> at \<^verbatim>\<open>null\<close>, and \<^const>\<open>normalize_response\<close> goes on to the string
  check and the last resort.
\<close>

theorem primary_step_never_raises:
  "primary h content =
     Inr (if string_texts h (elements h (opt_dot h content ''parts'')) = [] then Null
          else Str (string_texts h (elements h (opt_dot h content ''parts''))))
   \<and> (text_field h p = None \<longrightarrow> part_text h p = Inr (Str []))
   \<and> (\<not> isArray h (opt_dot h content ''parts'') \<longrightarrow> primary h content = Inr Null)
   \<and> (\<not> isArray h (opt_dot h (content_of h result) ''parts'') \<longrightarrow>
        normalize_response h result =
          (if nonempty_string (opt_dot h result ''response'') then Inr (opt_dot h result ''response'')
           else last_resort h result))"
proof (intro conjI impI)
  show "primary h content =
     Inr (if string_texts h (elements h (opt_dot h content ''parts'')) = [] then Null
          else Str (string_texts h (elements h (opt_dot h content ''parts''))))"
    by (simp add: primary_eq Let_def)
  show "part_text h p = Inr (Str [])" if "text_field h p = None"
    using that by (simp add: part_text_eq)
  have no_elements: "elements h v = []" if "\<not> isArray h v" for v
    using that by (auto simp: isArray_def elements_def split: jsval.splits jsobj.splits)
  show "primary h content = Inr Null" if "\<not> isArray h (opt_dot h content ''parts'')"
    using no_elements [OF that] by (simp add: primary_eq string_texts_def)
  show "normalize_response h result =
          (if nonempty_string (opt_dot h result ''response'') then Inr (opt_dot h result ''response'')
           else last_resort h result)"
    if "\<not> isArray h (opt_dot h (content_of h result) ''parts'')"
    using no_elements [OF that]
    by (simp add: normalize_cases primary_texts_def parts_of_def string_texts_def)
qed

text \<open>
  The parts \<^verbatim>\<open>[null, undefined, 5, "text", true, { text: 1 }, {}, ["x"], { text: "ok" }]\<close>
  give \<^verbatim>\<open>ok\<close>; the parts \<^verbatim>\<open>"text"\<close>, a string and no array, are passed over, and the
  candidate is serialised.
\<close>

theorem primary_step_never_raises_witness:
  \<open>primary malformed_parts_response (Ref 4) = Inr (Str ''ok'')
   \<and> text_field malformed_parts_response Null = None
   \<and> part_text malformed_parts_response Null = Inr (Str [])
   \<and> text_field malformed_parts_response (Ref 6) = None
   \<and> part_text malformed_parts_response (Ref 6) = Inr (Str [])
   \<and> \<not> isArray parts_not_array_response (opt_dot parts_not_array_response (Ref 4) ''parts'')
   \<and> primary parts_not_array_response (Ref 4) = Inr Null
   \<and> normalize_response parts_not_array_response (Ref 0) = Inr (Str ''{"content":{"parts":"text"}}'')\<close>
proof -
  note malformed = primary_step_never_raises [of malformed_parts_response "Ref 4" _ "Ref 0"]
  note not_array = primary_step_never_raises [of parts_not_array_response "Ref 4" Null "Ref 0"]
  have s: "string_texts malformed_parts_response
             (elements malformed_parts_response (opt_dot malformed_parts_response (Ref 4) ''parts'')) = ''ok''"
    by (simp add: malformed_parts_response_def string_texts_def elements_def opt_dot_def obj_at_def
        text_field_def)
  have w1: "primary malformed_parts_response (Ref 4) = Inr (Str ''ok'')"
    using malformed [of Null, THEN conjunct1] by (simp add: s)
  have n: "text_field malformed_parts_response Null = None"
    and o: "text_field malformed_parts_response (Ref 6) = None"
    by (simp_all add: malformed_parts_response_def text_field_def opt_dot_def obj_at_def)
  have w2: "part_text malformed_parts_response Null = Inr (Str [])"
    using malformed [of Null, THEN conjunct2, THEN conjunct1] n by simp
  have w3: "part_text malformed_parts_response (Ref 6) = Inr (Str [])"
    using malformed [of "Ref 6", THEN conjunct2, THEN conjunct1] o by simp
  have a: "\<not> isArray parts_not_array_response (opt_dot parts_not_array_response (Ref 4) ''parts'')"
    and c: "\<not> isArray parts_not_array_response
               (opt_dot parts_not_array_response (content_of parts_not_array_response (Ref 0)) ''parts'')"
    by (simp_all add: parts_not_array_response_def isArray_def opt_dot_def obj_at_def content_of_def
        candidate_of_def)
  have w4: "primary parts_not_array_response (Ref 4) = Inr Null"
    using not_array [THEN conjunct2, THEN conjunct2, THEN conjunct1] a by simp
  have l: \<open>last_resort parts_not_array_response (Ref 0) = Inr (Str ''{"content":{"parts":"text"}}'')\<close>
    by (simp add: model_defs parts_not_array_response_def)
  have r: "\<not> nonempty_string (opt_dot parts_not_array_response (Ref 0) ''response'')"
    by (simp add: parts_not_array_response_def opt_dot_def obj_at_def)
  have w5: \<open>normalize_response parts_not_array_response (Ref 0) = Inr (Str ''{"content":{"parts":"text"}}'')\<close>
    using not_array [THEN conjunct2, THEN conjunct2, THEN conjunct2] c l r by simp
  show ?thesis
    using w1 n w2 o w3 a w4 w5 by simp
qed

subsection \<open>C10: white space is a prompt\<close>

text \<open>
  Claim C10. A prompt that consists of white space only, such as a single space, passes
  the check and is the argument of the call of the SDK, as it is: what
  \<^const>\<open>generateContent\<close> returns or raises is what the SDK answers to that very string,
  reduced by \<^const>\<open>normalize_response\<close>. The check rejects nothing but the absent, the
  empty and what is no string.
\<close>

theorem whitespace_prompt_accepted:
  "s \<noteq> [] \<Longrightarrow> \<forall>c \<in> set s. is_space c \<Longrightarrow>
     validate h (Str s) = Inr (Str s)
     \<and> calls (snd (generateContent model h (Str s))) = [Str s]
     \<and> fst (generateContent model h (Str s)) =
         (case model (Str s) of
            Inl e \<Rightarrow> Inl e
          | Inr (h', result) \<Rightarrow> normalize_response h' result)
     \<and> (\<forall>p e. validate h p = Inl e \<longrightarrow> absent_empty_or_not_string p)"
  by (simp add: validate_accepts_iff accepted_prompt_is_forwarded outcome_is_sdk_at_prompt
      validate_rejects_iff absent_empty_or_not_string_iff)

text \<open>An SDK that answers with its argument gives the single space back.\<close>

theorem whitespace_prompt_accepted_witness:
  "'' '' \<noteq> [] \<and> is_space CHR '' ''
   \<and> validate [] (Str '' '') = Inr (Str '' '')
   \<and> calls (snd (generateContent echo_sdk [] (Str '' ''))) = [Str '' '']
   \<and> fst (generateContent echo_sdk [] (Str '' '')) = Inr (Str '' '')"
  using whitespace_prompt_accepted [of "'' ''" "[]" echo_sdk]
  by (simp add: is_space_def echo_sdk_def model_defs)

end
